theory Spec2Isabelle
  imports Complex_Main
begin

section \<open>The battle bot of \<^verbatim>\<open>gamebots/bot.py\<close>\<close>

text \<open>
  A shallow embedding of the class \<^verbatim>\<open>BattleBot\<close>. The template matcher
  (\<^verbatim>\<open>gamebots/tm.py\<close>), the device channel (\<^verbatim>\<open>gamebots/device.py\<close>) and the
  button layout (\<^verbatim>\<open>config/buttons.json\<close>) are not part of the sources at hand: they
  are parameters of the model. What the bot does to the outside (taps, swipes, sleeps,
  log records) is written to a trace, in the order in which it happens.
\<close>

subsection \<open>Events, state and the outside world\<close>

text \<open>The levels of \<^verbatim>\<open>logging\<close> that the bot uses.\<close>

datatype level = DEBUG | INFO | WARNING | ERROR

text \<open>
  \<^item> \<open>Tap x y w h\<close>: \<^verbatim>\<open>device.tap_rand(x, y, w, h)\<close>, a tap at a random point of the
    rectangle; the event keeps the rectangle that was passed.
  \<^item> \<open>Swipe p q\<close>: \<^verbatim>\<open>device.swipe(p, q)\<close>.
  \<^item> \<open>Sleep sec\<close>: \<^verbatim>\<open>sleep(sec)\<close>.
  \<^item> \<open>Log lvl msg\<close>: a record of the logger; \<open>msg\<close> is the format string of the
    source, its arguments are not rendered.
\<close>

datatype event =
    Tap int int int int
  | Swipe "int \<times> int" "int \<times> int"
  | Sleep int
  | Log level string

text \<open>
  The state of a run: \<open>frame\<close> counts the calls of \<^verbatim>\<open>tm.update_screen()\<close> so far,
  so it is the index of the frame that the template matcher has cached, and \<open>trace\<close>
  lists the events so far, the oldest first.
\<close>

record st =
  frame :: nat
  trace :: "event list"

text \<open>
  The outside world, as the answers it gives. Every query of the template matcher is
  answered from the cached frame: \<open>tm_exists w n im th\<close> is \<^verbatim>\<open>tm.exists(im, threshold=th)\<close>
  on the \<open>n\<close>-th frame, \<open>tm_find\<close> is \<^verbatim>\<open>tm.find\<close> (which answers \<open>(-1, -1)\<close> when
  the image is not there) and \<open>tm_getsize\<close> is \<^verbatim>\<open>tm.getsize\<close>. \<open>tap_rand_ret w n\<close>
  is the truth value that \<^verbatim>\<open>device.tap_rand\<close> returns when \<open>n\<close> events precede the
  tap, and \<open>randint w n k\<close> is the \<open>k\<close>-th value that \<^verbatim>\<open>randint(-5, 5)\<close> draws for a
  swipe that \<open>n\<close> events precede. A threshold is a float or \<^verbatim>\<open>None\<close>; it is only
  handed on to the template matcher.

  The answers are functions of how far the run has come, and nothing is assumed of them.
  The bot has no other source of chance, so whatever the game and the device do in reply
  to its taps, the frames that the bot gets to see are one such sequence: a statement
  about all worlds is a statement about all runs.
\<close>

record world =
  tm_exists :: "nat \<Rightarrow> string \<Rightarrow> real option \<Rightarrow> bool"
  tm_find :: "nat \<Rightarrow> string \<Rightarrow> real option \<Rightarrow> int \<times> int"
  tm_getsize :: "string \<Rightarrow> int \<times> int"
  tap_rand_ret :: "nat \<Rightarrow> bool"
  randint :: "nat \<Rightarrow> nat \<Rightarrow> int"

text \<open>
  The exceptions that the bot raises itself: a failed \<^verbatim>\<open>assert\<close> with its message,
  the \<^verbatim>\<open>AttributeError\<close> of reading an attribute that an object does not have
  (with the name of the attribute), the \<^verbatim>\<open>KeyError\<close> of
  \<^verbatim>\<open>self.stage_handlers[stage]\<close> and the \<^verbatim>\<open>ZeroDivisionError\<close> of a division.
  An exception is returned together with the state in which it was raised.
\<close>

datatype error = AssertionError string | AttributeError string | KeyError int | ZeroDivisionError

text \<open>
  A stage handler is a callable without arguments (\<^verbatim>\<open>f: Callable\<close>). What it does
  when it is called (\<open>call\<close>) acts on the outside world only, so it is a function of
  the state: it may raise (\<open>Inl\<close>), return (\<open>Inr\<close>) or never return (\<open>None\<close>).
  \<open>attr_name\<close> is its attribute \<^verbatim>\<open>__name__\<close>: a function defined with
  \<^verbatim>\<open>def\<close> has one, a callable object such as a \<^verbatim>\<open>functools.partial\<close> has none.
\<close>

type_synonym action = "st \<Rightarrow> (error \<times> st + st) option"

record handler =
  attr_name :: "string option"
  call :: action

text \<open>
  \<^verbatim>\<open>self.buttons\<close>, the content of \<^verbatim>\<open>buttons.json\<close>: \<open>button\<close> gives the
  \<open>(x, y, w, h)\<close> of a named button (\<^verbatim>\<open>__button\<close>, lines 80-88), \<open>distance\<close>
  the value of a named distance such as \<^verbatim>\<open>self.buttons['servant_distance']\<close>, and
  \<open>swipe_track\<close> the four coordinates of \<^verbatim>\<open>self.buttons['swipe'][track]\<close>. The file
  is taken to hold every key that the code reads.
\<close>

record layout =
  button :: "string \<Rightarrow> int \<times> int \<times> int \<times> int"
  distance :: "string \<Rightarrow> int"
  swipe_track :: "string \<Rightarrow> int \<times> int \<times> int \<times> int"

text \<open>The fields of a \<^verbatim>\<open>BattleBot\<close> that its methods read (lines 25-78).\<close>

record bot =
  stage_handlers :: "int \<rightharpoonup> handler"
  stage_count :: int
  friend_count :: nat
  ap :: "string list option"
  threshold :: real
  buttons :: layout

definition INTERVAL_SHORT :: int where "INTERVAL_SHORT = 1"
definition INTERVAL_MID :: int where "INTERVAL_MID = 10"
definition INTERVAL_LONG :: int where "INTERVAL_LONG = 25"

subsection \<open>Primitives\<close>

definition emit :: "event \<Rightarrow> st \<Rightarrow> st" where
  "emit e s = s\<lparr>trace := trace s @ [e]\<rparr>"

definition logger :: "level \<Rightarrow> string \<Rightarrow> st \<Rightarrow> st" where
  "logger lvl msg s = emit (Log lvl msg) s"

definition update_screen :: "st \<Rightarrow> st" where
  "update_screen s = s\<lparr>frame := Suc (frame s)\<rparr>"

text \<open>\<^verbatim>\<open>device.tap_rand(x, y, w, h)\<close>: the tap, and what the call returns.\<close>

definition tap_rand :: "world \<Rightarrow> int \<Rightarrow> int \<Rightarrow> int \<Rightarrow> int \<Rightarrow> st \<Rightarrow> bool \<times> st" where
  "tap_rand w x y wd h s = (tap_rand_ret w (length (trace s)), emit (Tap x y wd h) s)"

text \<open>\<^verbatim>\<open>__swipe\<close> (lines 90-98).\<close>

definition swipe :: "world \<Rightarrow> bot \<Rightarrow> string \<Rightarrow> st \<Rightarrow> st" where
  "swipe w b track s =
     (let (x1, y1, x2, y2) = swipe_track (buttons b) track;
          n = length (trace s)
      in emit (Swipe (x1 + randint w n 0, y1 + randint w n 1)
                     (x2 + randint w n 2, y2 + randint w n 3)) s)"

text \<open>\<^verbatim>\<open>__exists\<close> (lines 115-122).\<close>

definition exists_im :: "world \<Rightarrow> string \<Rightarrow> real option \<Rightarrow> st \<Rightarrow> bool" where
  "exists_im w im th s = tm_exists w (frame s) im th"

text \<open>\<^verbatim>\<open>__find_and_tap\<close> (lines 100-113).\<close>

definition find_and_tap :: "world \<Rightarrow> string \<Rightarrow> real option \<Rightarrow> st \<Rightarrow> bool \<times> st" where
  "find_and_tap w im th s =
     (let (x, y) = tm_find w (frame s) im th in
      if (x, y) = (-1, -1)
      then (False, logger WARNING ''Failed to find image {} on screen.'' s)
      else (let (wd, h) = tm_getsize w im in tap_rand w x y wd h s))"

text \<open>\<^verbatim>\<open>__wait\<close> (lines 124-132).\<close>

definition wait :: "int \<Rightarrow> st \<Rightarrow> st" where
  "wait sec s = update_screen (emit (Sleep sec) (logger DEBUG ''Sleep {} seconds.'' s))"

text \<open>
  \<^verbatim>\<open>__wait_until\<close> (lines 134-143). The loop runs for as long as the image is not on
  the screen: \<open>None\<close> is the call that never returns.
\<close>

partial_function (option) wait_until_loop :: "world \<Rightarrow> string \<Rightarrow> st \<Rightarrow> st option" where
  "wait_until_loop w im s =
     (if exists_im w im None s then Some s
      else (let s1 = wait INTERVAL_SHORT s;
                s2 = (if exists_im w ''reconnect'' None s1
                      then snd (find_and_tap w ''reconnect'' None s1) else s1)
            in wait_until_loop w im s2))"

definition wait_until :: "world \<Rightarrow> string \<Rightarrow> st \<Rightarrow> st option" where
  "wait_until w im s =
     wait_until_loop w im (update_screen (logger DEBUG ''Wait until image '{}' appears.'' s))"

text \<open>
  \<^verbatim>\<open>__get_current_stage\<close> (lines 156-175) is called by no method of the class; it is
  left out.
\<close>

subsection \<open>The registry of stage handlers\<close>

text \<open>
  \<^verbatim>\<open>__add_stage_handler\<close> (lines 145-154). \<^verbatim>\<open>self.stage_handlers.get(stage)\<close> is
  \<^verbatim>\<open>None\<close> for a stage without handler and the handler otherwise, and a function, as
  a \<^verbatim>\<open>functools.partial\<close>, is true as a truth value: the assertion of line 152 fails
  exactly when the stage has a handler. Line 153 reads \<^verbatim>\<open>f.__name__\<close> for its debug
  record, before the record is written and before line 154 stores the handler: a handler
  without this attribute raises \<^verbatim>\<open>AttributeError\<close> there, and nothing is stored.
\<close>

definition add_stage_handler :: "bot \<Rightarrow> int \<Rightarrow> handler \<Rightarrow> st \<Rightarrow> error \<times> st + bot \<times> st" where
  "add_stage_handler b stage f s =
     (if stage_handlers b stage \<noteq> None
      then Inl (AssertionError ''Cannot register multiple function to a single stage.'', s)
      else (case attr_name f of
              None \<Rightarrow> Inl (AttributeError ''__name__'', s)
            | Some n \<Rightarrow>
                Inr (b\<lparr>stage_handlers := (stage_handlers b)(stage \<mapsto> f)\<rparr>,
                     logger DEBUG ''Function {} registered to stage {}'' s)))"

text \<open>
  \<^verbatim>\<open>at_stage\<close> (lines 317-328): \<open>at_stage b stage\<close> is the decorator, which
  registers \<open>f\<close> and returns it.
\<close>

definition at_stage :: "bot \<Rightarrow> int \<Rightarrow> handler \<Rightarrow> st \<Rightarrow> error \<times> st + handler \<times> bot \<times> st" where
  "at_stage b stage f s =
     (case add_stage_handler b stage f s of
        Inl e \<Rightarrow> Inl e
      | Inr (b', s') \<Rightarrow> Inr (f, b', s'))"

subsection \<open>The action invokers\<close>

text \<open>
  \<^verbatim>\<open>use_skill\<close> (lines 330-355). \<open>obj\<close> is \<^verbatim>\<open>None\<close> or a number.
\<close>

definition use_skill :: "world \<Rightarrow> bot \<Rightarrow> int \<Rightarrow> int \<Rightarrow> int option \<Rightarrow> st \<Rightarrow> st option" where
  "use_skill w b servant skill obj s =
     (case wait_until w ''attack'' s of
        None \<Rightarrow> None
      | Some s1 \<Rightarrow>
          (let (x, y, wd, h) = button (buttons b) ''skill'';
               x = x + distance (buttons b) ''servant_distance'' * (servant - 1);
               x = x + distance (buttons b) ''skill_distance'' * (skill - 1);
               s2 = snd (tap_rand w x y wd h s1);
               s3 = logger DEBUG ''Used skill ({}, {})'' s2;
               s4 = wait INTERVAL_SHORT s3;
               s5 = (if exists_im w ''choose_object'' None s4
                     then (case obj of
                             None \<Rightarrow> logger ERROR ''Must choose a skill object.'' s4
                           | Some ob \<Rightarrow>
                               (let (x, y, wd, h) = button (buttons b) ''choose_object'';
                                    x = x + distance (buttons b) ''choose_object_distance'' * (ob - 1)
                                in logger DEBUG ''Chose skill object {}.''
                                     (snd (tap_rand w x y wd h s4))))
                     else s4)
           in Some (wait INTERVAL_SHORT s5)))"

text \<open>
  \<^verbatim>\<open>use_master_skill\<close> (lines 357-406), in three parts: \<open>master_skill_menu\<close> is
  lines 369-377 (the menu is opened and the skill is tapped), \<open>master_skill_prompt\<close>
  is lines 379-404 (the branch on the prompt that is on the screen), and
  \<open>use_master_skill\<close> puts them between the wait of line 367 and that of line 406.
\<close>

definition master_skill_menu :: "world \<Rightarrow> bot \<Rightarrow> int \<Rightarrow> st \<Rightarrow> st" where
  "master_skill_menu w b skill s =
     (let (x, y, wd, h) = button (buttons b) ''master_skill_menu'';
          s1 = snd (tap_rand w x y wd h s);
          s2 = wait INTERVAL_SHORT s1;
          (x, y, wd, h) = button (buttons b) ''master_skill'';
          x = x + distance (buttons b) ''master_skill_distance'' * (skill - 1);
          s3 = snd (tap_rand w x y wd h s2);
          s4 = logger DEBUG ''Used master skill {}'' s3
      in wait INTERVAL_SHORT s4)"

definition master_skill_prompt :: "world \<Rightarrow> bot \<Rightarrow> int option \<Rightarrow> int option \<Rightarrow> st \<Rightarrow> st" where
  "master_skill_prompt w b obj obj2 s =
     (if exists_im w ''choose_object'' None s then
        (case obj of
           None \<Rightarrow> logger ERROR ''Must choose a master skill object.'' s
         | Some ob \<Rightarrow>
             if 1 \<le> ob \<and> ob \<le> 3 then
               (let (x, y, wd, h) = button (buttons b) ''choose_object'';
                    x = x + distance (buttons b) ''choose_object_distance'' * (ob - 1)
                in logger DEBUG ''Chose master skill object {}.'' (snd (tap_rand w x y wd h s)))
             else logger ERROR ''Invalid master skill object.'' s)
      else if exists_im w ''order_change'' None s then
        (case (obj, obj2) of
           (Some ob, Some ob2) \<Rightarrow>
             if 1 \<le> ob \<and> ob \<le> 3 \<and> 4 \<le> ob2 \<and> ob2 \<le> 6 then
               (let (x, y, wd, h) = button (buttons b) ''change'';
                    x = x + distance (buttons b) ''change_distance'' * (ob - 1);
                    s1 = snd (tap_rand w x y wd h s);
                    x = x + distance (buttons b) ''change_distance'' * (ob2 - ob);
                    s2 = snd (tap_rand w x y wd h s1);
                    s3 = logger DEBUG ''Chose master skill object ({}, {}).'' s2;
                    s4 = snd (find_and_tap w ''change'' None s3)
                in logger DEBUG ''Order Change'' s4)
             else logger ERROR ''Invalid master skill object.'' s
         | _ \<Rightarrow> logger ERROR ''Must choose two objects for Order Change.'' s)
      else s)"

definition use_master_skill ::
    "world \<Rightarrow> bot \<Rightarrow> int \<Rightarrow> int option \<Rightarrow> int option \<Rightarrow> st \<Rightarrow> st option" where
  "use_master_skill w b skill obj obj2 s =
     (case wait_until w ''attack'' s of
        None \<Rightarrow> None
      | Some s1 \<Rightarrow>
          Some (wait INTERVAL_SHORT
                  (master_skill_prompt w b obj obj2 (master_skill_menu w b skill s1))))"

text \<open>
  \<^verbatim>\<open>attack\<close> (lines 408-433). \<open>choose_card\<close> is the body of the loop over the cards
  (lines 423-432); the loop takes the cards in the order of the list.
\<close>

definition choose_card :: "world \<Rightarrow> bot \<Rightarrow> int \<Rightarrow> st \<Rightarrow> st" where
  "choose_card w b c s =
     (if 1 \<le> c \<and> c \<le> 5 then
        (let (x, y, wd, h) = button (buttons b) ''card'';
             x = x + distance (buttons b) ''card_distance'' * (c - 1)
         in snd (tap_rand w x y wd h s))
      else if 6 \<le> c \<and> c \<le> 8 then
        (let (x, y, wd, h) = button (buttons b) ''noble_card'';
             x = x + distance (buttons b) ''card_distance'' * (c - 6)
         in snd (tap_rand w x y wd h s))
      else logger ERROR ''Card number must be in range [1, 8]'' s)"

definition attack :: "world \<Rightarrow> bot \<Rightarrow> int list \<Rightarrow> st \<Rightarrow> (error \<times> st + st) option" where
  "attack w b cards s =
     (if length cards \<noteq> 3 then Some (Inl (AssertionError ''Number of cards must be 3.'', s))
      else if card (set cards) \<noteq> 3 then Some (Inl (AssertionError ''Cards must be distinct.'', s))
      else (case wait_until w ''attack'' s of
              None \<Rightarrow> None
            | Some s1 \<Rightarrow>
                (let s2 = snd (find_and_tap w ''attack'' None s1);
                     s3 = wait (INTERVAL_SHORT * 2) s2;
                     s4 = fold (choose_card w b) cards s3
                 in Some (Inr (logger DEBUG ''Attack.'' s4)))))"

subsection \<open>One battle\<close>

text \<open>
  \<^verbatim>\<open>play_battle\<close> (lines 281-294). \<open>play_battle_loop\<close> is the \<^verbatim>\<open>while\<close> loop with
  the value of \<^verbatim>\<open>stage\<close> at its head. A stage without handler is the
  \<^verbatim>\<open>KeyError\<close> of the lookup; what a handler raises goes on to the caller.
\<close>

function play_battle_loop :: "world \<Rightarrow> bot \<Rightarrow> int \<Rightarrow> st \<Rightarrow> (error \<times> st + int \<times> st) option" where
  "play_battle_loop w b stage s =
     (if stage < stage_count b then
        (case wait_until w ''attack'' s of
           None \<Rightarrow> None
         | Some s1 \<Rightarrow>
             (case stage_handlers b (stage + 1) of
                None \<Rightarrow> Some (Inl (KeyError (stage + 1), s1))
              | Some f \<Rightarrow>
                  (case call f s1 of
                     None \<Rightarrow> None
                   | Some (Inl e) \<Rightarrow> Some (Inl e)
                   | Some (Inr s2) \<Rightarrow> play_battle_loop w b (stage + 1) (wait INTERVAL_LONG s2))))
      else Some (Inr (stage, s)))"
  by pat_completeness auto
termination
  by (relation "measure (\<lambda>(w, b, stage, s). nat (stage_count b - stage))") auto

definition play_battle :: "world \<Rightarrow> bot \<Rightarrow> st \<Rightarrow> (error \<times> st + int \<times> st) option" where
  "play_battle w b s = play_battle_loop w b 0 (logger INFO ''Handling the battle'' s)"

text \<open>\<^verbatim>\<open>end_battle\<close> (lines 296-315); \<open>end_battle_loop\<close> is the loop of lines 299-303.\<close>

partial_function (option) end_battle_loop :: "world \<Rightarrow> st \<Rightarrow> st option" where
  "end_battle_loop w s =
     (if exists_im w ''next_step'' None s then Some s
      else (let s1 = snd (tap_rand w 640 360 50 50 s);
                s2 = wait INTERVAL_SHORT s1;
                s3 = (if exists_im w ''reconnect'' None s2
                      then snd (find_and_tap w ''reconnect'' None s2) else s2)
            in end_battle_loop w s3))"

definition end_battle :: "world \<Rightarrow> st \<Rightarrow> st option" where
  "end_battle w s =
     (case end_battle_loop w (logger INFO ''Finishing the battle.'' (wait INTERVAL_SHORT s)) of
        None \<Rightarrow> None
      | Some s1 \<Rightarrow>
          (let s2 = snd (find_and_tap w ''next_step'' None s1);
               s3 = wait (INTERVAL_SHORT * 2) s2;
               s4 = (if exists_im w ''next_step'' None s3
                     then wait INTERVAL_SHORT (snd (find_and_tap w ''next_step'' None s3))
                     else s3);
               s5 = wait (INTERVAL_SHORT * 2) s4;
               s6 = (if exists_im w ''not_apply'' None s5
                     then snd (find_and_tap w ''not_apply'' None s5) else s5)
           in Some (wait INTERVAL_SHORT s6)))"

subsection \<open>Entering a battle\<close>

text \<open>The decimal digits of a number, as \<^verbatim>\<open>'{}'.format(fid)\<close> writes them.\<close>

fun str_nat :: "nat \<Rightarrow> string" where
  "str_nat n =
     (if n < 10 then [''0123456789'' ! n]
      else str_nat (n div 10) @ [''0123456789'' ! (n mod 10)])"

text \<open>
  \<^verbatim>\<open>__find_friend\<close> (lines 177-186). \<open>find_friend_polls w b n\<close> is what is left of
  the loop \<^verbatim>\<open>for _ in range(6)\<close> when \<open>n\<close> rounds are to come; the inner loop
  returns the first image of the roster that is on the screen.
\<close>

primrec find_friend_polls :: "world \<Rightarrow> bot \<Rightarrow> nat \<Rightarrow> st \<Rightarrow> string \<times> st" where
  "find_friend_polls w b 0 s = ([], s)"
| "find_friend_polls w b (Suc n) s =
     (let s1 = wait INTERVAL_SHORT s in
      case List.find (\<lambda>im. exists_im w im (Some (threshold b)) s1)
             (map (\<lambda>fid. ''f_'' @ str_nat fid) [0..<friend_count b]) of
        Some im \<Rightarrow> (im, s1)
      | None \<Rightarrow> find_friend_polls w b n (swipe w b ''friend'' s1))"

definition find_friend :: "world \<Rightarrow> bot \<Rightarrow> st \<Rightarrow> (string \<times> st) option" where
  "find_friend w b s =
     (case wait_until w ''refresh_friends'' s of
        None \<Rightarrow> None
      | Some s1 \<Rightarrow> Some (find_friend_polls w b 6 s1))"

text \<open>
  The recovery of action points, which \<^verbatim>\<open>__enter_battle\<close> (lines 203-220) and
  \<^verbatim>\<open>__reenter_battle\<close> (lines 250-267) hold as the same text. \<open>ap_items\<close> is the
  loop over the items, with the value of \<^verbatim>\<open>ok\<close> as its result; \<open>ap_recover\<close> is
  the branch on \<^verbatim>\<open>not self.ap\<close> around it, with \<open>False\<close> where the source returns
  \<^verbatim>\<open>False\<close>.
\<close>

fun ap_items :: "world \<Rightarrow> string list \<Rightarrow> st \<Rightarrow> (bool \<times> st) option" where
  "ap_items w [] s = Some (False, s)"
| "ap_items w (ap_item # rest) s =
     (let s1 = (if ap_item = ''apple_bronze''
                then wait INTERVAL_SHORT (emit (Swipe (640, 400) (640, 250)) s) else s);
          r = find_and_tap w ap_item None s1
      in if fst r then
           (let d = find_and_tap w ''decide'' None (wait INTERVAL_SHORT (snd r))
            in if fst d then
                 (case wait_until w ''refresh_friends'' (logger INFO (ap_item @ '' used'') (snd d)) of
                    None \<Rightarrow> None
                  | Some s2 \<Rightarrow> Some (True, s2))
               else ap_items w rest (snd d))
         else ap_items w rest (snd r))"

definition ap_recover :: "world \<Rightarrow> bot \<Rightarrow> st \<Rightarrow> (bool \<times> st) option" where
  "ap_recover w b s =
     (case ap b of
        None \<Rightarrow> Some (False, s)
      | Some [] \<Rightarrow> Some (False, s)
      | Some items \<Rightarrow> ap_items w items (wait INTERVAL_SHORT s))"

text \<open>
  The search for a friend servant, again the same text in both methods (lines 223-230
  and 270-277): \<open>friend_retry\<close> is the loop \<^verbatim>\<open>while not friend\<close>, and
  \<open>look_for_friend\<close> ends with the tap on the friend that was found.
\<close>

partial_function (option) friend_retry :: "world \<Rightarrow> bot \<Rightarrow> string \<Rightarrow> st \<Rightarrow> (string \<times> st) option" where
  "friend_retry w b friend s =
     (if friend \<noteq> [] then Some (friend, s)
      else (let s1 = snd (find_and_tap w ''refresh_friends'' None s);
                s2 = wait INTERVAL_SHORT s1;
                s3 = snd (find_and_tap w ''yes'' None s2);
                s4 = wait INTERVAL_SHORT s3
            in Option.bind (find_friend w b s4) (\<lambda>r. friend_retry w b (fst r) (snd r))))"

definition look_for_friend :: "world \<Rightarrow> bot \<Rightarrow> st \<Rightarrow> st option" where
  "look_for_friend w b s =
     (case find_friend w b s of
        None \<Rightarrow> None
      | Some (friend, s1) \<Rightarrow>
          (case friend_retry w b friend s1 of
             None \<Rightarrow> None
           | Some (friend', s2) \<Rightarrow> Some (snd (find_and_tap w friend' (Some (threshold b)) s2))))"

text \<open>\<^verbatim>\<open>__enter_battle\<close> (lines 188-234); \<open>tap_quest\<close> is the loop of lines 196-198.\<close>

partial_function (option) tap_quest :: "world \<Rightarrow> bot \<Rightarrow> st \<Rightarrow> st option" where
  "tap_quest w b s =
     (let r = find_and_tap w ''quest'' (Some (threshold b)) s
      in if fst r then Some (snd r)
         else tap_quest w b (wait INTERVAL_SHORT (swipe w b ''quest'' (snd r))))"

definition enter_battle :: "world \<Rightarrow> bot \<Rightarrow> st \<Rightarrow> (bool \<times> st) option" where
  "enter_battle w b s =
     (case wait_until w ''menu'' (logger INFO ''Trying to enter the battle'' s) of
        None \<Rightarrow> None
      | Some s1 \<Rightarrow>
     (case tap_quest w b s1 of
        None \<Rightarrow> None
      | Some s2 \<Rightarrow>
     (case (let s3 = wait INTERVAL_SHORT s2
            in if exists_im w ''ap_regen'' None s3 then ap_recover w b s3 else Some (True, s3)) of
        None \<Rightarrow> None
      | Some (False, s4) \<Rightarrow> Some (False, s4)
      | Some (True, s4) \<Rightarrow>
     (case look_for_friend w b s4 of
        None \<Rightarrow> None
      | Some s5 \<Rightarrow>
     (case wait_until w ''start_quest'' s5 of
        None \<Rightarrow> None
      | Some s6 \<Rightarrow>
          Some (True, wait INTERVAL_MID (snd (find_and_tap w ''start_quest'' None s6))))))))"

text \<open>\<^verbatim>\<open>__reenter_battle\<close> (lines 236-279); \<open>tap_cont\<close> is the loop of lines 243-244.\<close>

partial_function (option) tap_cont :: "world \<Rightarrow> st \<Rightarrow> st option" where
  "tap_cont w s =
     (let r = find_and_tap w ''cont'' None s
      in if fst r then Some (snd r) else tap_cont w (wait INTERVAL_SHORT (snd r)))"

definition reenter_battle :: "world \<Rightarrow> bot \<Rightarrow> st \<Rightarrow> (bool \<times> st) option" where
  "reenter_battle w b s =
     (case tap_cont w (logger INFO ''Trying to re-enter the battle'' s) of
        None \<Rightarrow> None
      | Some s1 \<Rightarrow>
     (case (let s2 = wait INTERVAL_SHORT s1
            in if exists_im w ''ap_regen'' None s2
               then ap_recover w b (logger DEBUG ''Insufficient AP'' s2) else Some (True, s2)) of
        None \<Rightarrow> None
      | Some (False, s3) \<Rightarrow> Some (False, s3)
      | Some (True, s3) \<Rightarrow>
     (case look_for_friend w b s3 of
        None \<Rightarrow> None
      | Some s4 \<Rightarrow> Some (True, wait INTERVAL_MID s4))))"

subsection \<open>Many battles\<close>

text \<open>
  \<^verbatim>\<open>run\<close> (lines 435-470). The readings of \<^verbatim>\<open>time()\<close> go into the log messages
  only, whose arguments are not rendered; what is kept of them is the division of line 470,
  which raises when \<^verbatim>\<open>count\<close> is zero.

  \<open>battle_cycle\<close> is the text that lines 449-454 and 460-465 share, but for
  \<^verbatim>\<open>count += 1\<close>, which is left to the two places: a battle is played and ended, and
  the record of it is written. \<open>run_loop\<close> is the \<^verbatim>\<open>while\<close> loop of lines 455-465
  with the value of \<^verbatim>\<open>count\<close> at its head; \<^verbatim>\<open>enter_flag\<close> does not change in the
  loop, so \<open>run\<close> tests it before the loop, and a failed re-entry leaves the loop.
  \<open>run_report\<close> is the last statement (lines 467-470).
\<close>

definition battle_cycle :: "world \<Rightarrow> bot \<Rightarrow> st \<Rightarrow> (error \<times> st + st) option" where
  "battle_cycle w b s =
     (case play_battle w b s of
        None \<Rightarrow> None
      | Some (Inl e) \<Rightarrow> Some (Inl e)
      | Some (Inr (rounds, s1)) \<Rightarrow>
          (case end_battle w s1 of
             None \<Rightarrow> None
           | Some s2 \<Rightarrow>
               Some (Inr (logger INFO ''{}-th Battle complete. {} rounds played. Time: {}'' s2))))"

function run_loop :: "world \<Rightarrow> bot \<Rightarrow> int \<Rightarrow> int \<Rightarrow> st \<Rightarrow> (error \<times> st + int \<times> st) option" where
  "run_loop w b max_loops count s =
     (if count < max_loops then
        (case reenter_battle w b s of
           None \<Rightarrow> None
         | Some (False, s1) \<Rightarrow> Some (Inr (count, logger INFO ''Quit...'' s1))
         | Some (True, s1) \<Rightarrow>
             (case battle_cycle w b s1 of
                None \<Rightarrow> None
              | Some (Inl e) \<Rightarrow> Some (Inl e)
              | Some (Inr s2) \<Rightarrow> run_loop w b max_loops (count + 1) s2))
      else Some (Inr (count, s)))"
  by pat_completeness auto
termination
  by (relation "measure (\<lambda>(w, b, max_loops, count, s). nat (max_loops - count))") auto

definition run_report :: "int \<Rightarrow> st \<Rightarrow> error \<times> st + st" where
  "run_report count s =
     (if count = 0 then Inl (ZeroDivisionError, s)
      else Inr (logger INFO
        ''{} Battles played.\<newline>Total time: {} sec, average time: {} sec\<newline>End'' s))"

definition run :: "world \<Rightarrow> bot \<Rightarrow> int \<Rightarrow> st \<Rightarrow> (error \<times> st + st) option" where
  "run w b max_loops s =
     (case enter_battle w b s of
        None \<Rightarrow> None
      | Some (entered, s1) \<Rightarrow>
          (let count = (0::int);
               enter_flag = (if \<not> entered then 1 else (0::int));
               s2 = (if \<not> entered then logger INFO ''Quit...'' s1 else s1)
           in case (if enter_flag = 0
                    then (case battle_cycle w b s2 of
                            None \<Rightarrow> None
                          | Some (Inl e) \<Rightarrow> Some (Inl e)
                          | Some (Inr s3) \<Rightarrow> Some (Inr (count + 1, s3)))
                    else Some (Inr (count, s2))) of
                None \<Rightarrow> None
              | Some (Inl e) \<Rightarrow> Some (Inl e)
              | Some (Inr (count, s3)) \<Rightarrow>
                  (case (if enter_flag = 0 then run_loop w b max_loops count s3
                         else Some (Inr (count, s3))) of
                     None \<Rightarrow> None
                   | Some (Inl e) \<Rightarrow> Some (Inl e)
                   | Some (Inr (count, s4)) \<Rightarrow> Some (run_report count s4))))"

subsection \<open>What a call adds to the trace\<close>

text \<open>The events from the state \<open>s\<close> to a later state \<open>s'\<close>.\<close>

definition events_since :: "st \<Rightarrow> st \<Rightarrow> event list" where
  "events_since s s' = drop (length (trace s)) (trace s')"

text \<open>
  What one round of the loop over the cards leaves in the trace, as the description of
  \<^verbatim>\<open>attack\<close> has it: a tap into the row of normal cards for 1 to 5, a tap into the
  row of noble phantasm cards for 6 to 8, and for any other number no tap, only the
  error record. It is compared with \<open>choose_card\<close> below.
\<close>

definition card_event_spec :: "bot \<Rightarrow> int \<Rightarrow> event" where
  "card_event_spec b c =
     (if c \<in> {1..5} then
        (case button (buttons b) ''card'' of
           (x, y, wd, h) \<Rightarrow> Tap (x + distance (buttons b) ''card_distance'' * (c - 1)) y wd h)
      else if c \<in> {6..8} then
        (case button (buttons b) ''noble_card'' of
           (x, y, wd, h) \<Rightarrow> Tap (x + distance (buttons b) ''card_distance'' * (c - 6)) y wd h)
      else Log ERROR ''Card number must be in range [1, 8]'')"

text \<open>
  The stages in the order of a list of handlers, as the description of
  \<^verbatim>\<open>play_battle\<close> has it: for each handler in turn the wait for the attack button,
  the handler, the long pause. It is compared with \<open>play_battle_loop\<close> below.
\<close>

fun stages_in_order :: "world \<Rightarrow> handler list \<Rightarrow> st \<Rightarrow> (error \<times> st + st) option" where
  "stages_in_order w [] s = Some (Inr s)"
| "stages_in_order w (f # fs) s =
     (case wait_until w ''attack'' s of
        None \<Rightarrow> None
      | Some s1 \<Rightarrow>
          (case call f s1 of
             None \<Rightarrow> None
           | Some (Inl e) \<Rightarrow> Some (Inl e)
           | Some (Inr s2) \<Rightarrow> stages_in_order w fs (wait INTERVAL_LONG s2)))"

text \<open>The registry invariant of the data model: every index with a handler is a stage.\<close>

definition handlers_in_range :: "bot \<Rightarrow> bool" where
  "handlers_in_range b = (dom (stage_handlers b) \<subseteq> {1..stage_count b})"

subsection \<open>Sample layout, bots and worlds\<close>

text \<open>
  A layout with known rectangles and distances, a bot of three stages without handlers,
  and worlds in which a fixed list of images is on every frame: such an image is found
  at \<open>(500, 300)\<close>, every image is of size \<open>(80, 40)\<close>, every tap succeeds and a swipe
  is not moved.
\<close>

definition sample_layout :: layout where
  "sample_layout =
     \<lparr>button = (\<lambda>name.
         if name = ''skill'' then (60, 580, 50, 50)
         else if name = ''master_skill_menu'' then (1190, 310, 40, 40)
         else if name = ''master_skill'' then (900, 310, 50, 50)
         else if name = ''choose_object'' then (300, 400, 100, 100)
         else if name = ''change'' then (130, 330, 100, 100)
         else if name = ''card'' then (130, 500, 100, 100)
         else if name = ''noble_card'' then (400, 200, 100, 100)
         else (0, 0, 0, 0)),
      distance = (\<lambda>name.
         if name = ''servant_distance'' then 318
         else if name = ''skill_distance'' then 88
         else if name = ''master_skill_distance'' then 90
         else if name = ''choose_object_distance'' then 320
         else if name = ''change_distance'' then 200
         else if name = ''card_distance'' then 257
         else 0),
      swipe_track = (\<lambda>track. (640, 500, 640, 200))\<rparr>"

definition sample_bot :: bot where
  "sample_bot =
     \<lparr>stage_handlers = Map.empty, stage_count = 3, friend_count = 1, ap = Some [],
      threshold = 0.92, buttons = sample_layout\<rparr>"

definition world_showing :: "string list \<Rightarrow> world" where
  "world_showing ims =
     \<lparr>tm_exists = (\<lambda>n im th. im \<in> set ims),
      tm_find = (\<lambda>n im th. if im \<in> set ims then (500, 300) else (-1, -1)),
      tm_getsize = (\<lambda>im. (80, 40)),
      tap_rand_ret = (\<lambda>n. True),
      randint = (\<lambda>n k. 0)\<rparr>"

definition start :: st where
  "start = \<lparr>frame = 0, trace = []\<rparr>"

text \<open>
  A function that leaves a mark in the log (its \<^verbatim>\<open>__name__\<close> is the mark), what
  \<^verbatim>\<open>functools.partial(f)\<close> makes of a handler (a callable that does the same and has
  no \<^verbatim>\<open>__name__\<close>), and a bot of two stages with two marks.
\<close>

definition mark :: "string \<Rightarrow> handler" where
  "mark msg = \<lparr>attr_name = Some msg, call = (\<lambda>s. Some (Inr (logger INFO msg s)))\<rparr>"

definition functools_partial :: "handler \<Rightarrow> handler" where
  "functools_partial f = f\<lparr>attr_name := None\<rparr>"

definition two_stage_bot :: bot where
  "two_stage_bot =
     sample_bot\<lparr>stage_handlers := [1 \<mapsto> mark ''first'', 2 \<mapsto> mark ''second''],
                stage_count := 2\<rparr>"

section \<open>Properties\<close>

subsection \<open>The trace and the frame of the primitives\<close>

lemma trace_emit: "trace (emit e s) = trace s @ [e]"
  by (simp add: emit_def)

lemma frame_emit: "frame (emit e s) = frame s"
  by (simp add: emit_def)

lemma trace_logger: "trace (logger lvl msg s) = trace s @ [Log lvl msg]"
  by (simp add: logger_def emit_def)

lemma frame_logger: "frame (logger lvl msg s) = frame s"
  by (simp add: logger_def emit_def)

lemma trace_update_screen: "trace (update_screen s) = trace s"
  by (simp add: update_screen_def)

lemma frame_update_screen: "frame (update_screen s) = Suc (frame s)"
  by (simp add: update_screen_def)

lemma trace_wait: "trace (wait sec s) = trace s @ [Log DEBUG ''Sleep {} seconds.'', Sleep sec]"
  by (simp add: wait_def trace_update_screen trace_emit trace_logger)

lemma frame_wait: "frame (wait sec s) = Suc (frame s)"
  by (simp add: wait_def frame_update_screen frame_emit frame_logger)

lemma snd_tap_rand: "snd (tap_rand w x y wd h s) = emit (Tap x y wd h) s"
  by (simp add: tap_rand_def)

lemmas effects = trace_emit frame_emit trace_logger frame_logger trace_update_screen
  frame_update_screen trace_wait frame_wait snd_tap_rand

lemma trace_find_and_tap:
  "trace (snd (find_and_tap w im th s)) =
     trace s @ [case tm_find w (frame s) im th of
                  (fx, fy) \<Rightarrow>
                    if (fx, fy) = (-1, -1) then Log WARNING ''Failed to find image {} on screen.''
                    else (case tm_getsize w im of (fw, fh) \<Rightarrow> Tap fx fy fw fh)]"
  by (simp add: find_and_tap_def effects split: prod.splits)

lemma frame_find_and_tap: "frame (snd (find_and_tap w im th s)) = frame s"
  by (simp add: find_and_tap_def effects split: prod.splits)

text \<open>A wait for an image that is on the next frame returns at once.\<close>

lemma wait_until_loop_now:
  "exists_im w im None s \<Longrightarrow> wait_until_loop w im s = Some s"
  by (subst wait_until_loop.simps) simp

lemma wait_until_now:
  "tm_exists w (Suc (frame s)) im None \<Longrightarrow>
   wait_until w im s = Some (update_screen (logger DEBUG ''Wait until image '{}' appears.'' s))"
  by (simp add: wait_until_def wait_until_loop_now exists_im_def update_screen_def logger_def
      emit_def)

lemma wait_until_showing:
  "im \<in> set ims \<Longrightarrow>
   wait_until (world_showing ims) im s =
     Some (update_screen (logger DEBUG ''Wait until image '{}' appears.'' s))"
  by (rule wait_until_now) (simp add: world_showing_def)

text \<open>
  A wait returns as soon as the image is on a frame: each round of the loop takes one
  frame, so the wait for an image that is on a later frame returns.
\<close>

lemma wait_until_loop_returns:
  "tm_exists w (frame s + k) im None \<Longrightarrow> \<exists>s'. wait_until_loop w im s = Some s'"
proof (induction k arbitrary: s)
  case 0
  then show ?case by (simp add: wait_until_loop_now exists_im_def)
next
  case (Suc k)
  show ?case
  proof (cases "exists_im w im None s")
    case True
    then show ?thesis by (simp add: wait_until_loop_now)
  next
    case False
    define s2 where "s2 =
      (if exists_im w ''reconnect'' None (wait INTERVAL_SHORT s)
       then snd (find_and_tap w ''reconnect'' None (wait INTERVAL_SHORT s))
       else wait INTERVAL_SHORT s)"
    have "frame s2 = Suc (frame s)"
      by (simp add: s2_def frame_find_and_tap frame_wait)
    with Suc.prems have "tm_exists w (frame s2 + k) im None" by simp
    then obtain s' where "wait_until_loop w im s2 = Some s'"
      using Suc.IH by blast
    with False show ?thesis
      by (subst wait_until_loop.simps) (simp add: s2_def Let_def)
  qed
qed

lemma wait_until_returns:
  assumes "frame s < n" and "tm_exists w n im None"
  shows "\<exists>s'. wait_until w im s = Some s'"
proof -
  let ?s0 = "update_screen (logger DEBUG ''Wait until image '{}' appears.'' s)"
  have "frame ?s0 = Suc (frame s)"
    by (simp add: effects)
  with assms have "tm_exists w (frame ?s0 + (n - Suc (frame s))) im None" by simp
  then show ?thesis
    unfolding wait_until_def by (rule wait_until_loop_returns)
qed

lemmas sample_defs = sample_bot_def sample_layout_def world_showing_def start_def
  INTERVAL_SHORT_def INTERVAL_MID_def INTERVAL_LONG_def

lemmas primitive_defs = emit_def logger_def update_screen_def wait_def tap_rand_def
  find_and_tap_def exists_im_def

subsection \<open>The cards of an attack\<close>

lemma choose_card_event: "choose_card w b c s = emit (card_event_spec b c) s"
  by (auto simp: choose_card_def card_event_spec_def logger_def effects split: prod.splits)

lemma fold_emit: "trace (fold (\<lambda>c. emit (g c)) cs s) = trace s @ map g cs"
  by (induction cs arbitrary: s) (simp_all add: effects)

lemma fold_choose_card:
  "trace (fold (choose_card w b) cs s) = trace s @ map (card_event_spec b) cs"
proof -
  have "choose_card w b = (\<lambda>c. emit (card_event_spec b c))"
    by (rule ext, rule ext) (rule choose_card_event)
  then show ?thesis by (simp add: fold_emit)
qed

lemma frame_fold_choose_card: "frame (fold (choose_card w b) cs s) = frame s"
  by (induction cs arbitrary: s) (simp_all add: choose_card_event effects)

text \<open>
  C1. The claim: with three distinct cards of which one lies outside \<open>[1, 8]\<close>,
  \<^verbatim>\<open>attack\<close> fails hard, as it does for a wrong count or a duplicate. The code does not:
  the loop over the cards has a branch of its own for such a card, which writes an error
  record and goes on. So, once the attack button is on the screen (state \<open>s1\<close>), the call
  returns normally, one frame later, and what it has added to the trace is, in this
  order: the outcome of \<^verbatim>\<open>__find_and_tap('attack')\<close>, which is the tap on the template
  where it is found on the frame and a warning where it is not; the pause; one event for
  every card in the order of the list, a tap for a card in \<open>[1, 8]\<close> and the error
  record (and no tap) for any other card; the closing debug record.
\<close>

theorem attack_out_of_range_card:
  assumes "length cards = 3" and "distinct cards"
    and "\<exists>c\<in>set cards. c \<notin> {1..8}"
    and "wait_until w ''attack'' s = Some s1"
  shows "\<exists>s'. attack w b cards s = Some (Inr s') \<and>
           frame s' = Suc (frame s1) \<and>
           trace s' =
             trace s1 @
             [case tm_find w (frame s1) ''attack'' None of
                (fx, fy) \<Rightarrow>
                  if (fx, fy) = (-1, -1) then Log WARNING ''Failed to find image {} on screen.''
                  else (case tm_getsize w ''attack'' of (fw, fh) \<Rightarrow> Tap fx fy fw fh),
              Log DEBUG ''Sleep {} seconds.'',
              Sleep (INTERVAL_SHORT * 2)] @
             map (card_event_spec b) cards @ [Log DEBUG ''Attack.''] \<and>
           Log ERROR ''Card number must be in range [1, 8]'' \<in> set (map (card_event_spec b) cards)"
proof -
  from assms(1,2) have "card (set cards) = 3"
    by (simp add: distinct_card)
  moreover from assms(3) obtain c where "c \<in> set cards" and "c \<notin> {1..8}"
    by blast
  then have "Log ERROR ''Card number must be in range [1, 8]'' \<in> card_event_spec b ` set cards"
    by (intro image_eqI [of _ _ c]) (auto simp: card_event_spec_def)
  ultimately show ?thesis
    using assms(1,4)
    by (simp add: attack_def Let_def fold_choose_card frame_fold_choose_card effects
        trace_find_and_tap frame_find_and_tap)
qed

theorem attack_out_of_range_card_witness:
  "\<exists>s'. attack (world_showing [''attack'']) sample_bot [6, 1, 0] start = Some (Inr s') \<and>
     frame s' = 2 \<and>
     trace s' =
       [Log DEBUG ''Wait until image '{}' appears.'',
        Tap 500 300 80 40,
        Log DEBUG ''Sleep {} seconds.'', Sleep 2,
        Tap 400 200 100 100, Tap 130 500 100 100,
        Log ERROR ''Card number must be in range [1, 8]'', Log DEBUG ''Attack.'']"
  using attack_out_of_range_card [of "[6, 1, 0]" "world_showing [''attack'']" start
      "update_screen (logger DEBUG ''Wait until image '{}' appears.'' start)" sample_bot]
  by (simp add: wait_until_showing)
    (auto simp: card_event_spec_def sample_defs effects)

text \<open>
  The cards 1, 2 and 9, with the attack button on the screen: the call returns, with two
  card taps and one error record.
\<close>

theorem attack_out_of_range_counterexample:
  "attack (world_showing [''attack'']) sample_bot [1, 2, 9] start =
     Some (Inr \<lparr>frame = 2, trace =
       [Log DEBUG ''Wait until image '{}' appears.'',
        Tap 500 300 80 40,
        Log DEBUG ''Sleep {} seconds.'', Sleep 2,
        Tap 130 500 100 100,
        Tap 387 500 100 100,
        Log ERROR ''Card number must be in range [1, 8]'',
        Log DEBUG ''Attack.'']\<rparr>)"
  by (simp add: attack_def wait_until_now choose_card_def Let_def sample_defs primitive_defs)

subsection \<open>A run that does not enter the battle\<close>

lemma tap_quest_now:
  "fst (find_and_tap w ''quest'' (Some (threshold b)) s) \<Longrightarrow>
   tap_quest w b s = Some (snd (find_and_tap w ''quest'' (Some (threshold b)) s))"
  by (subst tap_quest.simps) (simp add: Let_def)

text \<open>
  The bot of the sample scripts has \<^verbatim>\<open>ap=[]\<close>. When the prompt for action points
  comes up after the tap on the quest, \<^verbatim>\<open>__enter_battle\<close> returns \<^verbatim>\<open>False\<close>.
\<close>

lemma enter_battle_no_ap:
  "enter_battle (world_showing [''menu'', ''quest'', ''ap_regen'']) sample_bot start =
     Some (False, \<lparr>frame = 2, trace =
       [Log INFO ''Trying to enter the battle'',
        Log DEBUG ''Wait until image '{}' appears.'',
        Tap 500 300 80 40,
        Log DEBUG ''Sleep {} seconds.'', Sleep 1]\<rparr>)"
  by (simp add: enter_battle_def wait_until_now tap_quest_now ap_recover_def Let_def
      sample_defs primitive_defs)

text \<open>
  C2. The claim: when the first entry fails, \<^verbatim>\<open>run\<close> reports zero battles and ends
  normally, the average at its end being guarded against a count of zero. The code has no
  such guard: it sets \<^verbatim>\<open>enter_flag\<close>, passes by both battle blocks with
  \<^verbatim>\<open>count == 0\<close> and then divides by \<^verbatim>\<open>count\<close> in its last statement. So every
  run whose first entry fails ends with a \<^verbatim>\<open>ZeroDivisionError\<close>, raised after the
  record \<^verbatim>\<open>Quit...\<close> and before the summary is written.
\<close>

theorem run_without_battle_raises:
  assumes "enter_battle w b s = Some (False, s1)"
  shows "run w b max_loops s = Some (Inl (ZeroDivisionError, logger INFO ''Quit...'' s1))"
  using assms by (simp add: run_def run_report_def)

theorem run_without_battle_raises_witness:
  "run (world_showing [''menu'', ''quest'', ''ap_regen'']) sample_bot 200 start =
     Some (Inl (ZeroDivisionError, \<lparr>frame = 2, trace =
       [Log INFO ''Trying to enter the battle'',
        Log DEBUG ''Wait until image '{}' appears.'',
        Tap 500 300 80 40,
        Log DEBUG ''Sleep {} seconds.'', Sleep 1,
        Log INFO ''Quit...'']\<rparr>))"
  using run_without_battle_raises [OF enter_battle_no_ap, of 200]
  by (simp add: logger_def emit_def)

subsection \<open>The preconditions of an attack\<close>

text \<open>
  C3. For a list of cards whose length is not 3 or which holds a value twice,
  \<^verbatim>\<open>attack\<close> fails with an \<^verbatim>\<open>AssertionError\<close> in the state in which it was called:
  nothing has been added to the trace, so neither the attack button nor a card has been
  tapped.
\<close>

theorem attack_precondition:
  assumes "length cards \<noteq> 3 \<or> \<not> distinct cards"
  shows "\<exists>msg. attack w b cards s = Some (Inl (AssertionError msg, s))"
proof (cases "length cards = 3")
  case False
  then show ?thesis by (simp add: attack_def)
next
  case True
  with assms have "\<not> distinct cards" by simp
  then have "card (set cards) \<noteq> length cards"
    using card_distinct by blast
  with True show ?thesis by (simp add: attack_def)
qed

theorem attack_precondition_witness:
  "\<exists>msg. attack (world_showing [''attack'']) sample_bot [1, 1, 2] start =
     Some (Inl (AssertionError msg, start))"
  using attack_precondition [of "[1, 1, 2]" "world_showing [''attack'']" sample_bot start]
  by simp

subsection \<open>The stages of a battle\<close>

lemma upto_next: "k < n \<Longrightarrow> [k + 1..n] = (k + 1) # [k + 1 + 1..n]"
  by (simp add: upto_rec1)

text \<open>
  From any head of the loop on, \<^verbatim>\<open>play_battle\<close> runs the stages that are left, in
  ascending order, and returns the stage count.
\<close>

lemma play_battle_loop_stages:
  assumes "\<forall>i\<in>{1..stage_count b}. stage_handlers b i = Some (hs i)"
    and "0 \<le> k" and "k \<le> stage_count b"
  shows "play_battle_loop w b k s =
           (case stages_in_order w (map hs [k + 1..stage_count b]) s of
              None \<Rightarrow> None
            | Some (Inl e) \<Rightarrow> Some (Inl e)
            | Some (Inr s') \<Rightarrow> Some (Inr (stage_count b, s')))"
  using assms
proof (induction w b k s rule: play_battle_loop.induct)
  case (1 w b stage s)
  show ?case
  proof (cases "stage < stage_count b")
    case False
    with "1.prems" have "stage = stage_count b" by simp
    then show ?thesis by (subst play_battle_loop.simps) simp
  next
    case True
    with "1.prems" have h: "stage_handlers b (stage + 1) = Some (hs (stage + 1))" by simp
    show ?thesis
    proof (cases "wait_until w ''attack'' s")
      case None
      with True show ?thesis
        by (subst play_battle_loop.simps) (simp add: upto_next)
    next
      case (Some s1)
      show ?thesis
      proof (cases "call (hs (stage + 1)) s1")
        case None
        with True Some h show ?thesis
          by (subst play_battle_loop.simps) (simp add: upto_next)
      next
        case outcome: (Some r)
        show ?thesis
        proof (cases r)
          case (Inl e)
          with True Some h outcome show ?thesis
            by (subst play_battle_loop.simps) (simp add: upto_next)
        next
          case (Inr s2)
          from True "1.prems" have le: "0 \<le> stage + 1" "stage + 1 \<le> stage_count b"
            by simp_all
          have "play_battle_loop w b (stage + 1) (wait INTERVAL_LONG s2) =
                  (case stages_in_order w (map hs [stage + 1 + 1..stage_count b])
                          (wait INTERVAL_LONG s2) of
                     None \<Rightarrow> None
                   | Some (Inl e) \<Rightarrow> Some (Inl e)
                   | Some (Inr s') \<Rightarrow> Some (Inr (stage_count b, s')))"
            using "1.IH" [OF True Some h, of "Inr s2" s2] outcome Inr "1.prems"(1) le by simp
          with True Some h outcome Inr show ?thesis
            by (subst play_battle_loop.simps) (simp add: upto_next)
        qed
      qed
    qed
  qed
qed

text \<open>
  C4. When every stage index from 1 to the stage count has a handler (\<open>hs i\<close> the one
  of stage \<open>i\<close>), \<^verbatim>\<open>play_battle\<close> is the run of the handlers \<open>hs 1\<close>, ..., \<open>hs n\<close>
  in this order, each of them once, each after a wait for the attack button and before
  the long pause; when all of them return, \<^verbatim>\<open>play_battle\<close> returns the stage count.
  The equation also says when the call does not return: exactly when a wait or a handler
  does not. The stage count is a count, that is, not negative.
\<close>

theorem play_battle_in_order:
  assumes "0 \<le> stage_count b"
    and "\<forall>i\<in>{1..stage_count b}. stage_handlers b i = Some (hs i)"
  shows "play_battle w b s =
           (case stages_in_order w (map hs [1..stage_count b])
                   (logger INFO ''Handling the battle'' s) of
              None \<Rightarrow> None
            | Some (Inl e) \<Rightarrow> Some (Inl e)
            | Some (Inr s') \<Rightarrow> Some (Inr (stage_count b, s')))"
  using play_battle_loop_stages [OF assms(2), of 0 w] assms(1)
  by (simp add: play_battle_def)

theorem play_battle_in_order_witness:
  "play_battle (world_showing [''attack'']) two_stage_bot start =
     Some (Inr (2, \<lparr>frame = 4, trace =
       [Log INFO ''Handling the battle'',
        Log DEBUG ''Wait until image '{}' appears.'',
        Log INFO ''first'',
        Log DEBUG ''Sleep {} seconds.'', Sleep 25,
        Log DEBUG ''Wait until image '{}' appears.'',
        Log INFO ''second'',
        Log DEBUG ''Sleep {} seconds.'', Sleep 25]\<rparr>))"
proof -
  have h: "\<forall>i\<in>{1..stage_count two_stage_bot}.
             stage_handlers two_stage_bot i =
               Some ((\<lambda>i. if i = 1 then mark ''first'' else mark ''second'') i)"
    by (auto simp: two_stage_bot_def sample_bot_def)
  have c: "0 \<le> stage_count two_stage_bot"
    by (simp add: two_stage_bot_def sample_bot_def)
  have l: "[1..2::int] = [1, 2]"
    by (simp add: upto_rec1)
  have n: "stage_count two_stage_bot = 2"
    by (simp add: two_stage_bot_def sample_bot_def)
  show ?thesis
    unfolding play_battle_in_order [OF c h, of "world_showing [''attack'']" start] n l
    by (simp add: wait_until_showing mark_def start_def primitive_defs INTERVAL_LONG_def)
qed

subsection \<open>The rectangle of a skill\<close>

text \<open>
  C5. With \<open>(x, y, wd, h)\<close> the rectangle of the button \<^verbatim>\<open>skill\<close>: once the attack
  button is on the screen, the first thing \<^verbatim>\<open>use_skill(servant, skill)\<close> does is a tap
  on the rectangle whose x is
  \<open>x + servant_distance * (servant - 1) + skill_distance * (skill - 1)\<close> and whose
  \<open>y\<close>, \<open>wd\<close> and \<open>h\<close> are those of the button.
\<close>

theorem use_skill_rectangle:
  assumes "wait_until w ''attack'' s = Some s1"
    and "button (buttons b) ''skill'' = (x, y, wd, h)"
  shows "\<exists>s' rest. use_skill w b servant skill obj s = Some s' \<and>
           events_since s1 s' =
             Tap (x + distance (buttons b) ''servant_distance'' * (servant - 1)
                    + distance (buttons b) ''skill_distance'' * (skill - 1)) y wd h # rest"
  using assms
  by (simp add: use_skill_def events_since_def Let_def effects split: option.splits prod.splits)

theorem use_skill_rectangle_witness:
  "\<exists>s' rest. use_skill (world_showing [''attack'']) sample_bot 2 3 None start = Some s' \<and>
     events_since (update_screen (logger DEBUG ''Wait until image '{}' appears.'' start)) s' =
       Tap 554 580 50 50 # rest"
  using use_skill_rectangle [of "world_showing [''attack'']" start
      "update_screen (logger DEBUG ''Wait until image '{}' appears.'' start)"
      sample_bot 60 580 50 50 2 3 None]
  by (simp add: wait_until_showing sample_bot_def sample_layout_def)

subsection \<open>Order Change\<close>

text \<open>
  What \<open>master_skill_menu\<close> leaves of the sample bot's third master skill, whatever is
  on the screen.
\<close>

lemma master_skill_menu_sample:
  "master_skill_menu (world_showing ims) sample_bot 3
     (update_screen (logger DEBUG ''Wait until image '{}' appears.'' start)) =
   \<lparr>frame = 3, trace =
       [Log DEBUG ''Wait until image '{}' appears.'',
        Tap 1190 310 40 40,
        Log DEBUG ''Sleep {} seconds.'', Sleep 1,
        Tap 1080 310 50 50,
        Log DEBUG ''Used master skill {}'',
        Log DEBUG ''Sleep {} seconds.'', Sleep 1]\<rparr>"
  by (simp add: master_skill_menu_def Let_def sample_defs primitive_defs)

text \<open>
  C6. The claim: in the branch for Order Change, with \<open>1 \<le> obj \<le> 3\<close> and
  \<open>4 \<le> obj2 \<le> 6\<close>, the second tap is at the x of the first plus
  \<open>change_distance * (obj2 - obj)\<close>, and a tap that confirms the change follows. The
  first half holds as it stands. The second holds only when the template \<^verbatim>\<open>change\<close> is
  found: the code confirms with \<^verbatim>\<open>__find_and_tap('change')\<close>, on the frame that was
  cached before the two taps, and where the template is not found this call writes a
  warning and taps nothing. So the events after the skill was tapped are: the first tap,
  the second tap (relative to the first), a debug record, then either the tap on the
  template found or the warning, and the closing records and pause.
\<close>

theorem order_change_second_tap_relative:
  assumes "wait_until w ''attack'' s = Some s1"
    and "s2 = master_skill_menu w b skill s1"
    and "\<not> exists_im w ''choose_object'' None s2"
    and "exists_im w ''order_change'' None s2"
    and "ob \<in> {1..3}" and "ob2 \<in> {4..6}"
    and "button (buttons b) ''change'' = (x, y, wd, h)"
    and "x1 = x + distance (buttons b) ''change_distance'' * (ob - 1)"
  shows "\<exists>s'. use_master_skill w b skill (Some ob) (Some ob2) s = Some s' \<and>
           events_since s2 s' =
             [Tap x1 y wd h,
              Tap (x1 + distance (buttons b) ''change_distance'' * (ob2 - ob)) y wd h,
              Log DEBUG ''Chose master skill object ({}, {}).'',
              (case tm_find w (frame s2) ''change'' None of
                 (fx, fy) \<Rightarrow>
                   if (fx, fy) = (-1, -1) then Log WARNING ''Failed to find image {} on screen.''
                   else (case tm_getsize w ''change'' of (fw, fh) \<Rightarrow> Tap fx fy fw fh)),
              Log DEBUG ''Order Change'',
              Log DEBUG ''Sleep {} seconds.'',
              Sleep INTERVAL_SHORT]"
  using assms
  by (simp add: use_master_skill_def master_skill_prompt_def events_since_def Let_def effects
      trace_find_and_tap frame_find_and_tap)

theorem order_change_second_tap_relative_witness:
  "\<exists>s'. use_master_skill (world_showing [''attack'', ''order_change'', ''change'']) sample_bot 3
           (Some 2) (Some 4) start = Some s' \<and>
     events_since
       (master_skill_menu (world_showing [''attack'', ''order_change'', ''change'']) sample_bot 3
          (update_screen (logger DEBUG ''Wait until image '{}' appears.'' start))) s' =
       [Tap 330 330 100 100,
        Tap (330 + 200 * (4 - 2)) 330 100 100,
        Log DEBUG ''Chose master skill object ({}, {}).'',
        Tap 500 300 80 40,
        Log DEBUG ''Order Change'',
        Log DEBUG ''Sleep {} seconds.'',
        Sleep 1]"
  using order_change_second_tap_relative
      [of "world_showing [''attack'', ''order_change'', ''change'']"
      start "update_screen (logger DEBUG ''Wait until image '{}' appears.'' start)" _
      sample_bot 3 2 4 130 330 100 100 330]
  by (simp add: wait_until_showing master_skill_menu_sample)
    (simp add: sample_defs exists_im_def)

text \<open>
  The prompt of Order Change is on the screen and the template \<^verbatim>\<open>change\<close> is not
  found: the two taps are made, and no tap follows them.
\<close>

theorem order_change_confirm_counterexample:
  "use_master_skill (world_showing [''attack'', ''order_change'']) sample_bot 3
       (Some 2) (Some 4) start =
     Some \<lparr>frame = 4, trace =
       [Log DEBUG ''Wait until image '{}' appears.'',
        Tap 1190 310 40 40,
        Log DEBUG ''Sleep {} seconds.'', Sleep 1,
        Tap 1080 310 50 50,
        Log DEBUG ''Used master skill {}'',
        Log DEBUG ''Sleep {} seconds.'', Sleep 1,
        Tap 330 330 100 100,
        Tap 730 330 100 100,
        Log DEBUG ''Chose master skill object ({}, {}).'',
        Log WARNING ''Failed to find image {} on screen.'',
        Log DEBUG ''Order Change'',
        Log DEBUG ''Sleep {} seconds.'', Sleep 1]\<rparr>"
  by (simp add: use_master_skill_def master_skill_menu_def master_skill_prompt_def wait_until_now
      Let_def sample_defs primitive_defs)

subsection \<open>The registry\<close>

text \<open>
  C7. The claim: a registration at a stage that has a handler fails, and the first
  registration at a stage succeeds and stores the handler. The first half holds: the
  assert of line 152 fails, and nothing is changed. The second half holds for a handler
  that has a \<^verbatim>\<open>__name__\<close>, as every function has; the decorator \<^verbatim>\<open>at_stage\<close> then
  returns the handler. It fails for a callable without \<^verbatim>\<open>__name__\<close>: the debug
  record of line 153 reads the attribute before line 154 stores the handler, so the
  first registration of such a handler ends with an \<^verbatim>\<open>AttributeError\<close> and stores
  nothing.
\<close>

theorem stage_handler_registration:
  "(stage_handlers b stage \<noteq> None \<longrightarrow>
      add_stage_handler b stage f s =
        Inl (AssertionError ''Cannot register multiple function to a single stage.'', s) \<and>
      at_stage b stage f s =
        Inl (AssertionError ''Cannot register multiple function to a single stage.'', s)) \<and>
   (stage_handlers b stage = None \<and> attr_name f = None \<longrightarrow>
      add_stage_handler b stage f s = Inl (AttributeError ''__name__'', s) \<and>
      at_stage b stage f s = Inl (AttributeError ''__name__'', s)) \<and>
   (stage_handlers b stage = None \<and> attr_name f \<noteq> None \<longrightarrow>
      add_stage_handler b stage f s =
        Inr (b\<lparr>stage_handlers := (stage_handlers b)(stage \<mapsto> f)\<rparr>,
             logger DEBUG ''Function {} registered to stage {}'' s) \<and>
      at_stage b stage f s =
        Inr (f, b\<lparr>stage_handlers := (stage_handlers b)(stage \<mapsto> f)\<rparr>,
             logger DEBUG ''Function {} registered to stage {}'' s))"
  by (auto simp: add_stage_handler_def at_stage_def)

text \<open>
  The first registration of \<^verbatim>\<open>functools.partial\<close> of a function raises; that of the
  function itself succeeds, and a second one at its stage fails.
\<close>

theorem stage_handler_registration_witness:
  "at_stage sample_bot 1 (functools_partial (mark ''first'')) start =
     Inl (AttributeError ''__name__'', start) \<and>
   at_stage sample_bot 1 (mark ''first'') start =
     Inr (mark ''first'', sample_bot\<lparr>stage_handlers := [1 \<mapsto> mark ''first'']\<rparr>,
          logger DEBUG ''Function {} registered to stage {}'' start) \<and>
   at_stage (sample_bot\<lparr>stage_handlers := [1 \<mapsto> mark ''first'']\<rparr>) 1 (mark ''second'')
       (logger DEBUG ''Function {} registered to stage {}'' start) =
     Inl (AssertionError ''Cannot register multiple function to a single stage.'',
          logger DEBUG ''Function {} registered to stage {}'' start)"
  using stage_handler_registration
      [of sample_bot 1 "functools_partial (mark ''first'')" start]
    stage_handler_registration [of sample_bot 1 "mark ''first''" start]
    stage_handler_registration
      [of "sample_bot\<lparr>stage_handlers := [1 \<mapsto> mark ''first'']\<rparr>" 1
      "mark ''second''" "logger DEBUG ''Function {} registered to stage {}'' start"]
  by (simp add: sample_bot_def mark_def functools_partial_def)

text \<open>
  C8. The claim: a registration at an index outside \<open>[1, stage_count]\<close> is rejected, so
  that every index with a handler lies in this range. The code has no check of the index
  anywhere: a stage without handler takes a handler that has a \<^verbatim>\<open>__name__\<close>, whatever
  the index. The registration adds this index to the indices with a handler and nothing
  else, and the invariant holds afterwards exactly when it held before and the index is
  in the range.
\<close>

theorem registration_unchecked:
  assumes "stage_handlers b stage = None" and "attr_name f \<noteq> None"
  shows "\<exists>b' s'. add_stage_handler b stage f s = Inr (b', s') \<and>
           dom (stage_handlers b') = insert stage (dom (stage_handlers b)) \<and>
           stage_count b' = stage_count b \<and>
           (handlers_in_range b' \<longleftrightarrow> handlers_in_range b \<and> stage \<in> {1..stage_count b})"
  using assms by (auto simp: add_stage_handler_def handlers_in_range_def)

theorem registration_unchecked_witness:
  "\<exists>b' s'. add_stage_handler sample_bot 0 (mark ''zeroth'') start = Inr (b', s') \<and>
     dom (stage_handlers b') = {0} \<and> \<not> handlers_in_range b'"
  using registration_unchecked [of sample_bot 0 "mark ''zeroth''" start]
  by (auto simp: sample_bot_def handlers_in_range_def mark_def)

text \<open>A bot of three stages takes a handler for stage 7.\<close>

theorem registration_unchecked_counterexample:
  "add_stage_handler sample_bot 7 (mark ''seventh'') start =
     Inr (sample_bot\<lparr>stage_handlers := [7 \<mapsto> mark ''seventh'']\<rparr>,
          logger DEBUG ''Function {} registered to stage {}'' start) \<and>
   stage_count sample_bot = 3 \<and>
   \<not> handlers_in_range (sample_bot\<lparr>stage_handlers := [7 \<mapsto> mark ''seventh'']\<rparr>)"
  by (simp add: add_stage_handler_def handlers_in_range_def sample_bot_def mark_def)

subsection \<open>A master skill without its object\<close>

text \<open>
  C9. After the master skill was tapped (state \<open>s2\<close>): when the prompt for one object
  is on the screen and \<open>obj\<close> is missing or not in \<open>[1, 3]\<close>, or when the prompt of
  Order Change is on the screen (and that for one object is not) and \<open>obj\<close> or
  \<open>obj2\<close> is missing or they are not in \<open>[1, 3]\<close> and \<open>[4, 6]\<close>, then
  \<^verbatim>\<open>use_master_skill\<close> returns, and all it has done since is to write one error record
  and to make its closing pause: no tap.
\<close>

theorem master_skill_missing_object:
  assumes "wait_until w ''attack'' s = Some s1"
    and "s2 = master_skill_menu w b skill s1"
    and "(exists_im w ''choose_object'' None s2 \<and> (\<forall>ob. obj = Some ob \<longrightarrow> ob \<notin> {1..3})) \<or>
         (\<not> exists_im w ''choose_object'' None s2 \<and> exists_im w ''order_change'' None s2 \<and>
            (\<forall>ob ob2. obj = Some ob \<and> obj2 = Some ob2 \<longrightarrow> ob \<notin> {1..3} \<or> ob2 \<notin> {4..6}))"
  shows "\<exists>s' msg. use_master_skill w b skill obj obj2 s = Some s' \<and>
           events_since s2 s' =
             [Log ERROR msg, Log DEBUG ''Sleep {} seconds.'', Sleep INTERVAL_SHORT]"
  using assms
  by (auto simp: use_master_skill_def master_skill_prompt_def events_since_def Let_def effects
      split: option.splits prod.splits)

theorem master_skill_missing_object_witness:
  "\<exists>s' msg. use_master_skill (world_showing [''attack'', ''choose_object'']) sample_bot 3
           None None start = Some s' \<and>
     events_since
       (master_skill_menu (world_showing [''attack'', ''choose_object'']) sample_bot 3
          (update_screen (logger DEBUG ''Wait until image '{}' appears.'' start))) s' =
       [Log ERROR msg, Log DEBUG ''Sleep {} seconds.'', Sleep INTERVAL_SHORT]"
  using master_skill_missing_object [of "world_showing [''attack'', ''choose_object'']"
      start "update_screen (logger DEBUG ''Wait until image '{}' appears.'' start)" _
      sample_bot 3 None None]
  by (simp add: wait_until_showing master_skill_menu_sample)
    (simp add: sample_defs exists_im_def)

subsection \<open>The second tap of Order Change, absolutely\<close>

text \<open>
  C10. In the branch for Order Change, with \<open>1 \<le> obj \<le> 3\<close> and \<open>4 \<le> obj2 \<le> 6\<close> and
  \<open>(x, y, wd, h)\<close> the rectangle of the button \<^verbatim>\<open>change\<close>, the second tap is on
  \<open>(x + change_distance * (obj2 - 1), y, wd, h)\<close>: the offsets
  \<open>change_distance * (obj - 1)\<close> and \<open>change_distance * (obj2 - obj)\<close> add up to
  \<open>change_distance * (obj2 - 1)\<close>, in which \<open>obj\<close> does not occur.
\<close>

theorem order_change_second_tap_absolute:
  assumes "wait_until w ''attack'' s = Some s1"
    and "s2 = master_skill_menu w b skill s1"
    and "\<not> exists_im w ''choose_object'' None s2"
    and "exists_im w ''order_change'' None s2"
    and "ob \<in> {1..3}" and "ob2 \<in> {4..6}"
    and "button (buttons b) ''change'' = (x, y, wd, h)"
  shows "\<exists>s' rest. use_master_skill w b skill (Some ob) (Some ob2) s = Some s' \<and>
           events_since s2 s' =
             Tap (x + distance (buttons b) ''change_distance'' * (ob - 1)) y wd h #
             Tap (x + distance (buttons b) ''change_distance'' * (ob2 - 1)) y wd h # rest"
  using assms
  by (simp add: use_master_skill_def master_skill_prompt_def events_since_def Let_def effects
      trace_find_and_tap frame_find_and_tap algebra_simps)

theorem order_change_second_tap_absolute_witness:
  "\<exists>s' rest. use_master_skill (world_showing [''attack'', ''order_change'']) sample_bot 3
           (Some 3) (Some 5) start = Some s' \<and>
     events_since
       (master_skill_menu (world_showing [''attack'', ''order_change'']) sample_bot 3
          (update_screen (logger DEBUG ''Wait until image '{}' appears.'' start))) s' =
       Tap 530 330 100 100 # Tap 930 330 100 100 # rest"
  using order_change_second_tap_absolute [of "world_showing [''attack'', ''order_change'']"
      start "update_screen (logger DEBUG ''Wait until image '{}' appears.'' start)" _
      sample_bot 3 3 5 130 330 100 100]
  by (simp add: wait_until_showing master_skill_menu_sample)
    (simp add: sample_defs exists_im_def)

end
